theory Spec2Isabelle
  imports Complex_Main "HOL-Library.Word"
begin

unbundle bit_operations_syntax

section \<open>PillarScatter output verification: check.py and check_visual.py\<close>

text \<open>
  The two scripts compare the dense feature grid written by the PillarScatter operator
  with a reference grid. Both work on numpy arrays of IEEE binary16 values read from raw
  files. The embedding keeps
  \<^item> an array as its shape together with its elements in logical row-major order
    (a transposed numpy view has other strides, but the same logical content);
  \<^item> a binary16 element as its 16-bit pattern, exactly as it lies in the file;
  \<^item> every \<^verbatim>\<open>raise\<close> of the scripts and of the numpy calls they make as an error value;
  \<^item> the lines a function prints, and the whole-array predicates it evaluates, as a
    trace returned next to its value, in program order.
\<close>

subsection \<open>Arrays\<close>

datatype py_error = FileNotFoundError | ValueError | ZeroDivisionError

record 'a ndarray =
  shape :: "nat list"
  elems :: "'a list"

definition nd_size :: "'a ndarray \<Rightarrow> nat" where
  "nd_size a = prod_list (shape a)"

text \<open>The invariant of every array numpy hands out: as many elements as the shape says.\<close>

definition nd_wf :: "'a ndarray \<Rightarrow> bool" where
  "nd_wf a \<longleftrightarrow> length (elems a) = prod_list (shape a)"

text \<open>A one-dimensional array, as \<^verbatim>\<open>np.fromfile\<close> returns it.\<close>

definition nd_flat :: "'a list \<Rightarrow> 'a ndarray" where
  "nd_flat xs = \<lparr>shape = [length xs], elems = xs\<rparr>"

text \<open>\<^verbatim>\<open>a.reshape(d0, ..., dk)\<close> with explicit dimensions: the logical order of the
  elements stays, and a shape of another size raises ValueError.\<close>

definition reshape :: "nat list \<Rightarrow> 'a ndarray \<Rightarrow> py_error + 'a ndarray" where
  "reshape shp a =
     (if prod_list shp = length (elems a) then Inr (a\<lparr>shape := shp\<rparr>) else Inl ValueError)"

text \<open>Row-major position of a multi-index, and the multi-index of a position.\<close>

fun ravel :: "nat list \<Rightarrow> nat list \<Rightarrow> nat" where
  "ravel (d # ds) (i # is) = i * prod_list ds + ravel ds is"
| "ravel _ _ = 0"

fun unravel :: "nat list \<Rightarrow> nat \<Rightarrow> nat list" where
  "unravel [] j = []"
| "unravel (d # ds) j = (j div prod_list ds) # unravel ds (j mod prod_list ds)"

text \<open>\<^verbatim>\<open>a[i0, ..., ik]\<close> with every index in range.\<close>

definition nd_get :: "'a ndarray \<Rightarrow> nat list \<Rightarrow> 'a" where
  "nd_get a idx = elems a ! ravel (shape a) idx"

text \<open>
  \<^verbatim>\<open>a.transpose(axes)\<close>: axis \<open>k\<close> of the result is axis \<open>axes ! k\<close> of \<open>a\<close>, so the
  element at result index \<open>j\<close> is the element of \<open>a\<close> at the index \<open>i\<close> with
  \<open>i ! (axes ! k) = j ! k\<close>. Axes that are not a permutation of the dimensions raise
  ValueError.
\<close>

definition source_index :: "nat list \<Rightarrow> nat list \<Rightarrow> nat list" where
  "source_index axes j =
     map (\<lambda>d. case map_of (zip axes j) d of Some v \<Rightarrow> v | None \<Rightarrow> 0) [0..<length axes]"

definition transpose_nd :: "nat list \<Rightarrow> 'a ndarray \<Rightarrow> py_error + 'a ndarray" where
  "transpose_nd axes a =
     (if length axes = length (shape a) \<and> distinct axes \<and> (\<forall>k \<in> set axes. k < length (shape a))
      then
        let shp = map (\<lambda>k. shape a ! k) axes
        in Inr \<lparr>shape = shp,
                elems = map (\<lambda>p. elems a ! ravel (shape a) (source_index axes (unravel shp p)))
                            [0..<prod_list shp]\<rparr>
      else Inl ValueError)"

text \<open>
  The conversion of the reference grid in \<^verbatim>\<open>main\<close> of check.py (lines 343-344) and in
  \<^verbatim>\<open>load_feature_map\<close> of check_visual.py (lines 120-121): the flat buffer is read as
  channel-first \<open>[1, C, H, W]\<close> and transposed by \<open>(0, 2, 3, 1)\<close> to channel-last
  \<open>[1, H, W, C]\<close>. The scripts fix \<open>H = W = 720\<close> and \<open>C = 64\<close>; the dimensions are
  parameters here.
\<close>

definition nchw_to_nhwc :: "nat \<Rightarrow> nat \<Rightarrow> nat \<Rightarrow> 'a ndarray \<Rightarrow> py_error + 'a ndarray" where
  "nchw_to_nhwc H W C data =
     (case reshape [1, C, H, W] data of
        Inl e \<Rightarrow> Inl e
      | Inr r \<Rightarrow> transpose_nd [0, 2, 3, 1] r)"

subsection \<open>Binary16 elements and the whole-array predicates of numpy\<close>

type_synonym f16 = "16 word"
type_synonym byte = "8 word"

text \<open>A binary16 pattern is a NaN when its exponent bits are all ones and its fraction is
  not zero.\<close>

definition is_nan :: "f16 \<Rightarrow> bool" where
  "is_nan w \<longleftrightarrow> w AND 0x7C00 = 0x7C00 \<and> w AND 0x03FF \<noteq> 0"

text \<open>The two zeros \<open>0x0000\<close> and \<open>0x8000\<close>.\<close>

definition is_zero :: "f16 \<Rightarrow> bool" where
  "is_zero w \<longleftrightarrow> w AND 0x7FFF = 0"

text \<open>IEEE equality, the elementwise \<^verbatim>\<open>==\<close> of numpy: a NaN equals nothing, the two zeros
  are equal, and any other two values are equal exactly when their patterns are.\<close>

definition f16_eq :: "f16 \<Rightarrow> f16 \<Rightarrow> bool" where
  "f16_eq a b \<longleftrightarrow> \<not> is_nan a \<and> \<not> is_nan b \<and> (a = b \<or> (is_zero a \<and> is_zero b))"

text \<open>\<^verbatim>\<open>np.array_equal(a, b)\<close>: False on different shapes, otherwise \<^verbatim>\<open>(a == b).all()\<close>.\<close>

definition np_array_equal :: "f16 ndarray \<Rightarrow> f16 ndarray \<Rightarrow> bool" where
  "np_array_equal a b \<longleftrightarrow> shape a = shape b \<and> list_all2 f16_eq (elems a) (elems b)"

text \<open>
  \<^verbatim>\<open>np.allclose(a, b, rtol, atol)\<close> is \<^verbatim>\<open>np.isclose(a, b, rtol, atol).all()\<close>. The elementwise
  test of \<^verbatim>\<open>np.isclose\<close> is computed by numpy in rounded floating-point arithmetic; it is
  not code of the scripts and is a parameter \<open>isclose rtol atol x y\<close> of every function
  that reaches it, so that what is proved of the control flow holds for every such test.
  \<open>'t\<close> is the type of the tolerances. The scripts call it on arrays of equal shape
  only. The test numpy runs is \<open>np_isclose\<close> below.
\<close>

definition np_allclose :: "('t \<Rightarrow> 't \<Rightarrow> f16 \<Rightarrow> f16 \<Rightarrow> bool) \<Rightarrow> 't \<Rightarrow> 't \<Rightarrow> f16 list \<Rightarrow> f16 list \<Rightarrow> bool" where
  "np_allclose isclose rtol atol xs ys \<longleftrightarrow> list_all2 (isclose rtol atol) xs ys"

text \<open>\<^verbatim>\<open>np.count_nonzero\<close> and \<^verbatim>\<open>np.any(v != 0)\<close>: everything but the two zeros counts,
  a NaN too.\<close>

definition count_nonzero :: "f16 list \<Rightarrow> nat" where
  "count_nonzero xs = length (filter (\<lambda>w. \<not> is_zero w) xs)"

subsection \<open>The elementwise closeness test of numpy\<close>
















subsection \<open>Raw files\<close>

text \<open>
  The file system is a map from paths to contents. \<^verbatim>\<open>np.fromfile\<close> reads as many whole
  little-endian items as the file holds and ignores trailing bytes that do not fill an
  item.
\<close>

type_synonym files = "string \<Rightarrow> byte list option"

fun fromfile_u32 :: "byte list \<Rightarrow> 32 word list" where
  "fromfile_u32 (b0 # b1 # b2 # b3 # bs) =
     (ucast b0 OR push_bit 8 (ucast b1) OR push_bit 16 (ucast b2) OR push_bit 24 (ucast b3))
       # fromfile_u32 bs"
| "fromfile_u32 _ = []"

fun fromfile_f16 :: "byte list \<Rightarrow> f16 list" where
  "fromfile_f16 (b0 # b1 # bs) = (ucast b0 OR push_bit 8 (ucast b1)) # fromfile_f16 bs"
| "fromfile_f16 _ = []"

subsection \<open>What a run prints and evaluates\<close>

text \<open>
  One constructor for each line of the scripts that reports a decision, and for each
  numeric stage of \<^verbatim>\<open>compare_arrays\<close>; \<open>ArrayEqual\<close> and \<open>AllClose\<close> carry the value
  of the numpy predicate that was evaluated. A function returns its trace next to its
  outcome; lines that only format numbers are left out.
\<close>

datatype event =
    CoordsFileMissing \<comment> \<open>check.py line 49\<close>
  | CoordsReadError \<comment> \<open>line 57\<close>
  | GridFileMissing \<comment> \<open>line 28\<close>
  | OutputFileMissing \<comment> \<open>line 278\<close>
  | ReferenceFileMissing \<comment> \<open>line 283\<close>
  | CoordsLoaded nat \<comment> \<open>lines 291-292\<close>
  | CoordsUnavailable \<comment> \<open>line 296\<close>
  | FileSizesDiffer \<comment> \<open>line 307\<close>
  | Md5Identical \<comment> \<open>line 318\<close>
  | Md5Differs \<comment> \<open>line 323\<close>
  | LoadingData \<comment> \<open>line 327\<close>
  | ReshapedToNHWC \<comment> \<open>lines 339 and 345\<close>
  | UnexpectedSize nat \<comment> \<open>line 347\<close>
  | ShapeCheck bool \<comment> \<open>lines 155-161\<close>
  | DebugAnalysis \<comment> \<open>one call of analyze_debug_output, lines 166 and 169\<close>
  | Statistics \<comment> \<open>lines 172-182\<close>
  | Difference \<comment> \<open>lines 185-198\<close>
  | RestrictedRate nat nat \<comment> \<open>line 222: match_count and total_checked\<close>
  | RestrictedOk \<comment> \<open>line 225\<close>
  | ArrayEqual bool \<comment> \<open>line 229\<close>
  | AllClose bool \<comment> \<open>line 234\<close>
  | MismatchReport \<comment> \<open>the mismatch stage, lines 238-252\<close>
  | VerificationPassed \<comment> \<open>line 357\<close>
  | VerificationFailed \<comment> \<open>line 363\<close>
  | SizeWarning nat nat \<comment> \<open>check_visual.py line 109: expected and actual count\<close>

subsection \<open>check.py: configuration and loaders\<close>

definition DEBUG_MODE :: bool where
  "DEBUG_MODE = True"

definition DEBUG_MAX_PILLARS :: nat where
  "DEBUG_MAX_PILLARS = 9282"

text \<open>A coordinate record \<open>(batch_id, x, y, reserved)\<close> of four unsigned 32-bit integers;
  the table is the \<open>[num_pillars, 4]\<close> array as its list of rows.\<close>

type_synonym coord = "32 word \<times> 32 word \<times> 32 word \<times> 32 word"

fun rows4 :: "32 word list \<Rightarrow> coord list" where
  "rows4 (b # x # y # r # ws) = (b, x, y, r) # rows4 ws"
| "rows4 _ = []"

text \<open>\<^verbatim>\<open>coords.reshape(-1, 4)\<close> raises ValueError unless the item count is a multiple of 4.\<close>

definition reshape_rows4 :: "32 word list \<Rightarrow> py_error + coord list" where
  "reshape_rows4 ws = (if length ws mod 4 = 0 then Inr (rows4 ws) else Inl ValueError)"

text \<open>\<^verbatim>\<open>load_binary_file\<close> (lines 16-36) with \<^verbatim>\<open>dtype=np.float16\<close>.\<close>

definition load_binary_file :: "files \<Rightarrow> string \<Rightarrow> f16 ndarray option \<times> event list" where
  "load_binary_file fs filename =
     (case fs filename of
        None \<Rightarrow> (None, [GridFileMissing])
      | Some bs \<Rightarrow> (Some (nd_flat (fromfile_f16 bs)), []))"

text \<open>\<^verbatim>\<open>load_coords_file\<close> (lines 38-58): None for a missing file, and None again when the
  \<^verbatim>\<open>except\<close> clause catches the ValueError of the reshape.\<close>

definition load_coords_file :: "files \<Rightarrow> string \<Rightarrow> coord list option \<times> event list" where
  "load_coords_file fs filename =
     (case fs filename of
        None \<Rightarrow> (None, [CoordsFileMissing])
      | Some bs \<Rightarrow>
          (case reshape_rows4 (fromfile_u32 bs) of
             Inl e \<Rightarrow> (None, [CoordsReadError])
           | Inr coords \<Rightarrow> (Some coords, [])))"

subsection \<open>check.py: the comparison\<close>

text \<open>\<^verbatim>\<open>a[0, y, x, :]\<close> of a four-dimensional array, the channel vector of one cell.\<close>

definition channel_vector :: "'a ndarray \<Rightarrow> nat \<Rightarrow> nat \<Rightarrow> 'a list" where
  "channel_vector a y x = map (\<lambda>c. nd_get a [0, y, x, c]) [0..<shape a ! 3]"

text \<open>The test of lines 109 and 209 on one record.\<close>

definition eligible :: "'a ndarray \<Rightarrow> coord \<Rightarrow> bool" where
  "eligible a rec =
     (case rec of (batch_id, x, y, r) \<Rightarrow>
        batch_id = 0 \<and> unat x < shape a ! 2 \<and> unat y < shape a ! 1)"

text \<open>The loop of lines 108-114 of \<^verbatim>\<open>analyze_debug_output\<close>, threading
  \<open>(expected_positions, actual_positions)\<close>.\<close>

fun position_loop :: "f16 ndarray \<Rightarrow> coord list \<Rightarrow> nat \<times> nat \<Rightarrow> nat \<times> nat" where
  "position_loop output_data [] (expected, actual) = (expected, actual)"
| "position_loop output_data ((batch_id, x, y, r) # cs) (expected, actual) =
     (if batch_id = 0 \<and> unat x < shape output_data ! 2 \<and> unat y < shape output_data ! 1 then
        (if count_nonzero (channel_vector output_data (unat y) (unat x)) \<noteq> 0
         then position_loop output_data cs (expected + 1, actual + 1)
         else position_loop output_data cs (expected + 1, actual))
      else position_loop output_data cs (expected, actual))"

text \<open>
  \<^verbatim>\<open>analyze_debug_output\<close> (lines 68-133). Line 88 divides by the element count and
  raises ZeroDivisionError on an empty array; line 91 unpacks the shape into four names
  and raises ValueError on any other rank. The value is the element count, the nonzero
  count and, with coordinates, the two position counts.
\<close>

definition analyze_debug_output ::
  "f16 ndarray \<Rightarrow> coord list option \<Rightarrow> py_error + nat \<times> nat \<times> (nat \<times> nat) option" where
  "analyze_debug_output output_data coords =
     (if nd_size output_data = 0 then Inl ZeroDivisionError
      else if length (shape output_data) \<noteq> 4 then Inl ValueError
      else Inr (nd_size output_data, count_nonzero (elems output_data),
                map_option (\<lambda>cs. position_loop output_data (take DEBUG_MAX_PILLARS cs) (0, 0)) coords))"

text \<open>The loop of lines 208-215 over the truncated table, threading
  \<open>(match_count, total_checked)\<close>.\<close>

fun restricted_loop ::
  "('t \<Rightarrow> 't \<Rightarrow> f16 \<Rightarrow> f16 \<Rightarrow> bool) \<Rightarrow> 't \<Rightarrow> f16 ndarray \<Rightarrow> f16 ndarray \<Rightarrow> coord list
     \<Rightarrow> nat \<times> nat \<Rightarrow> nat \<times> nat" where
  "restricted_loop isclose tolerance arr1 arr2 [] (match_count, total_checked) =
     (match_count, total_checked)"
| "restricted_loop isclose tolerance arr1 arr2 ((batch_id, x, y, r) # cs) (match_count, total_checked) =
     (if batch_id = 0 \<and> unat x < shape arr1 ! 2 \<and> unat y < shape arr1 ! 1 then
        (if np_allclose isclose tolerance tolerance
              (channel_vector arr1 (unat y) (unat x)) (channel_vector arr2 (unat y) (unat x))
         then restricted_loop isclose tolerance arr1 arr2 cs (match_count + 1, total_checked + 1)
         else restricted_loop isclose tolerance arr1 arr2 cs (match_count, total_checked + 1))
      else restricted_loop isclose tolerance arr1 arr2 cs (match_count, total_checked))"

text \<open>Lines 203-222 with the window as a parameter; \<^verbatim>\<open>compare_arrays\<close> passes
  \<open>DEBUG_MAX_PILLARS\<close>.\<close>

definition restricted_counts ::
  "('t \<Rightarrow> 't \<Rightarrow> f16 \<Rightarrow> f16 \<Rightarrow> bool) \<Rightarrow> 't \<Rightarrow> nat \<Rightarrow> f16 ndarray \<Rightarrow> f16 ndarray \<Rightarrow> coord list
     \<Rightarrow> nat \<times> nat" where
  "restricted_counts isclose tolerance window arr1 arr2 debug_coords =
     restricted_loop isclose tolerance arr1 arr2 (take window debug_coords) (0, 0)"

text \<open>The test of line 214 on the cell of one record.\<close>

definition cell_matches ::
  "('t \<Rightarrow> 't \<Rightarrow> f16 \<Rightarrow> f16 \<Rightarrow> bool) \<Rightarrow> 't \<Rightarrow> f16 ndarray \<Rightarrow> f16 ndarray \<Rightarrow> coord \<Rightarrow> bool" where
  "cell_matches isclose tolerance arr1 arr2 rec =
     (case rec of (batch_id, x, y, r) \<Rightarrow>
        np_allclose isclose tolerance tolerance
          (channel_vector arr1 (unat y) (unat x)) (channel_vector arr2 (unat y) (unat x)))"

text \<open>Lines 228-254, the full comparison, entered with the trace so far.\<close>

definition full_comparison ::
  "('t \<Rightarrow> 't \<Rightarrow> f16 \<Rightarrow> f16 \<Rightarrow> bool) \<Rightarrow> 't \<Rightarrow> f16 ndarray \<Rightarrow> f16 ndarray \<Rightarrow> event list
     \<Rightarrow> (py_error + bool) \<times> event list" where
  "full_comparison isclose tolerance arr1 arr2 tr =
     (if np_array_equal arr1 arr2 then (Inr True, tr @ [ArrayEqual True])
      else if np_allclose isclose tolerance tolerance (elems arr1) (elems arr2)
      then (Inr True, tr @ [ArrayEqual False, AllClose True])
      else (Inr False, tr @ [ArrayEqual False, AllClose False, MismatchReport]))"

text \<open>
  \<^verbatim>\<open>compare_arrays\<close> (lines 135-254). After the shape check the two debug analyses run
  (lines 164-169), then the statistics, where \<^verbatim>\<open>arr1.min()\<close> raises ValueError on an
  empty array, and the difference. With coordinates the restricted block returns True
  when all checked cells match; in every other case control reaches the full comparison.
\<close>

definition compare_arrays ::
  "('t \<Rightarrow> 't \<Rightarrow> f16 \<Rightarrow> f16 \<Rightarrow> bool) \<Rightarrow> f16 ndarray \<Rightarrow> f16 ndarray \<Rightarrow> 't \<Rightarrow> coord list option
     \<Rightarrow> (py_error + bool) \<times> event list" where
  "compare_arrays isclose arr1 arr2 tolerance debug_coords =
     (if shape arr1 \<noteq> shape arr2 then (Inr False, [ShapeCheck False])
      else
        (case (if DEBUG_MODE then analyze_debug_output arr1 debug_coords else Inr (0, 0, None)) of
           Inl e \<Rightarrow> (Inl e, [ShapeCheck True])
         | Inr d1 \<Rightarrow>
        (case (if DEBUG_MODE then analyze_debug_output arr2 debug_coords else Inr (0, 0, None)) of
           Inl e \<Rightarrow> (Inl e, [ShapeCheck True, DebugAnalysis])
         | Inr d2 \<Rightarrow>
        (let tr0 = ShapeCheck True # (if DEBUG_MODE then [DebugAnalysis, DebugAnalysis] else [])
         in if nd_size arr1 = 0 then (Inl ValueError, tr0)
         else
          (let tr1 = tr0 @ [Statistics, Difference]
           in (case (if DEBUG_MODE then debug_coords else None) of
                 None \<Rightarrow> full_comparison isclose tolerance arr1 arr2 tr1
               | Some coords \<Rightarrow>
                  (case restricted_counts isclose tolerance DEBUG_MAX_PILLARS arr1 arr2 coords of
                     (match_count, total_checked) \<Rightarrow>
                       if match_count = total_checked
                       then (Inr True, tr1 @ [RestrictedRate match_count total_checked, RestrictedOk])
                       else full_comparison isclose tolerance arr1 arr2
                              (tr1 @ [RestrictedRate match_count total_checked]))))))))"

subsection \<open>check.py: the driver\<close>

text \<open>
  Lines 326-367 of \<^verbatim>\<open>main\<close>, reached when the digests differ: both grids are loaded; at
  the expected element count the output is reshaped as channel-last and the reference is
  converted from channel-first, at any other count both stay one-dimensional; then the
  verdict of \<^verbatim>\<open>compare_arrays\<close>, called with its default tolerance, becomes the exit code.
\<close>

definition load_and_compare ::
  "('t \<Rightarrow> 't \<Rightarrow> f16 \<Rightarrow> f16 \<Rightarrow> bool) \<Rightarrow> 't \<Rightarrow> files \<Rightarrow> string \<Rightarrow> string \<Rightarrow> coord list option
     \<Rightarrow> event list \<Rightarrow> (py_error + int) \<times> event list" where
  "load_and_compare isclose tolerance fs output_file correct_file coords_data tr =
     (case (load_binary_file fs output_file, load_binary_file fs correct_file) of
        ((Some output_data, tr_o), (Some correct_data, tr_c)) \<Rightarrow>
          (let tr1 = tr @ [LoadingData];
               shaped =
                 (if length (elems output_data) = 1 * 720 * 720 * 64 then
                    (case reshape [1, 720, 720, 64] output_data of
                       Inl e \<Rightarrow> Inl e
                     | Inr out \<Rightarrow>
                         (case nchw_to_nhwc 720 720 64 correct_data of
                            Inl e \<Rightarrow> Inl e
                          | Inr ref \<Rightarrow> Inr (out, ref, [ReshapedToNHWC])))
                  else Inr (output_data, correct_data, [UnexpectedSize (length (elems output_data))]))
           in (case shaped of
                 Inl e \<Rightarrow> (Inl e, tr1)
               | Inr (out, ref, tr_s) \<Rightarrow>
                   (case compare_arrays isclose out ref tolerance coords_data of
                      (Inl e, tr_cmp) \<Rightarrow> (Inl e, tr1 @ tr_s @ tr_cmp)
                    | (Inr is_equal, tr_cmp) \<Rightarrow>
                        if is_equal then (Inr 0, tr1 @ tr_s @ tr_cmp @ [VerificationPassed])
                        else (Inr 1, tr1 @ tr_s @ tr_cmp @ [VerificationFailed]))))
      | ((output_data, tr_o), (correct_data, tr_c)) \<Rightarrow> (Inr 1, tr @ [LoadingData] @ tr_o @ tr_c))"

text \<open>The paths of lines 259-266: the defaults, or the first two command-line arguments
  when \<^verbatim>\<open>sys.argv\<close> has at least three entries.\<close>

definition output_path :: "string list \<Rightarrow> string" where
  "output_path argv =
     (if 3 \<le> length argv then argv ! 1 else ''./output/OpTest_scatter_output_x.bin'')"

definition correct_path :: "string list \<Rightarrow> string" where
  "correct_path argv =
     (if 3 \<le> length argv then argv ! 2 else ''./output/OpTest_scatter_output_x_correct.bin'')"

definition coords_path :: string where
  "coords_path = ''./input/OpTest_scatter_input_coords.bin''"

text \<open>Lines 286-296: the coordinate table is loaded in debug mode, and the driver reports
  whether it got one.\<close>

definition coords_stage :: "files \<Rightarrow> coord list option \<times> event list" where
  "coords_stage fs =
     (if DEBUG_MODE then
        (case load_coords_file fs coords_path of
           (Some cs, tr) \<Rightarrow> (Some cs, tr @ [CoordsLoaded (length cs)])
         | (None, tr) \<Rightarrow> (None, tr @ [CoordsUnavailable]))
      else (None, []))"

text \<open>
  \<^verbatim>\<open>main\<close> (lines 256-367). \<open>argv\<close> is \<^verbatim>\<open>sys.argv\<close>, \<open>md5\<close> the digest that
  \<^verbatim>\<open>get_file_md5\<close> computes from a file's content, \<open>tolerance\<close> the value of the default
  \<^verbatim>\<open>1e-5\<close> of \<^verbatim>\<open>compare_arrays\<close>. The outcome is the exit code, or the exception
  that ends the process.
\<close>

definition main ::
  "(byte list \<Rightarrow> 'h) \<Rightarrow> ('t \<Rightarrow> 't \<Rightarrow> f16 \<Rightarrow> f16 \<Rightarrow> bool) \<Rightarrow> 't \<Rightarrow> string list \<Rightarrow> files
     \<Rightarrow> (py_error + int) \<times> event list" where
  "main md5 isclose tolerance argv fs =
     (case fs (output_path argv) of
        None \<Rightarrow> (Inr 1, [OutputFileMissing])
      | Some output_bytes \<Rightarrow>
     (case fs (correct_path argv) of
        None \<Rightarrow> (Inr 1, [ReferenceFileMissing])
      | Some correct_bytes \<Rightarrow>
     (case coords_stage fs of
        (coords_data, tr0) \<Rightarrow>
          if length output_bytes \<noteq> length correct_bytes then (Inr 1, tr0 @ [FileSizesDiffer])
          else if md5 output_bytes = md5 correct_bytes then (Inr 0, tr0 @ [Md5Identical])
          else load_and_compare isclose tolerance fs (output_path argv) (correct_path argv)
                 coords_data (tr0 @ [Md5Differs]))))"

subsection \<open>check_visual.py: the grid loader\<close>

definition FEATURE_SIZE :: nat where
  "FEATURE_SIZE = 64"

definition FEATURE_H :: nat where
  "FEATURE_H = 720"

definition FEATURE_W :: nat where
  "FEATURE_W = 720"

text \<open>\<^verbatim>\<open>str.upper\<close> on the ASCII letters, which is all that a comparison with
  \<^verbatim>\<open>'NHWC'\<close> or \<^verbatim>\<open>'NCHW'\<close> can see.\<close>

definition upper :: "string \<Rightarrow> string" where
  "upper s = map (\<lambda>c. let n = (of_char c :: nat)
                       in if 97 \<le> n \<and> n \<le> 122 then char_of (n - 32) else c) s"

text \<open>Lines 114-125 of \<^verbatim>\<open>load_feature_map\<close>: the layout decides between a plain reshape
  and the channel-first conversion; \<open>astype\<close> is the conversion to float32 of line 125.\<close>

definition organize ::
  "nat \<Rightarrow> nat \<Rightarrow> nat \<Rightarrow> (f16 \<Rightarrow> 'b) \<Rightarrow> f16 list \<Rightarrow> string \<Rightarrow> py_error + 'b ndarray" where
  "organize H W C astype data format_type =
     (case (if upper format_type = ''NHWC'' then reshape [1, H, W, C] (nd_flat data)
            else if upper format_type = ''NCHW'' then nchw_to_nhwc H W C (nd_flat data)
            else Inl ValueError) of
        Inl e \<Rightarrow> Inl e
      | Inr features \<Rightarrow> Inr \<lparr>shape = shape features, elems = map astype (elems features)\<rparr>)"

text \<open>
  \<^verbatim>\<open>load_feature_map\<close> (lines 90-125) with the module constants \<open>FEATURE_H\<close>,
  \<open>FEATURE_W\<close> and \<open>FEATURE_SIZE\<close> as the parameters \<open>H\<close>, \<open>W\<close> and \<open>C\<close>. The first
  component is what the method returns or raises, the second what it prints.
\<close>

definition load_feature_map ::
  "nat \<Rightarrow> nat \<Rightarrow> nat \<Rightarrow> (f16 \<Rightarrow> 'b) \<Rightarrow> files \<Rightarrow> string \<Rightarrow> string
     \<Rightarrow> (py_error + 'b ndarray) \<times> event list" where
  "load_feature_map H W C astype fs filename format_type =
     (case fs filename of
        None \<Rightarrow> (Inl FileNotFoundError, [])
      | Some bs \<Rightarrow>
          (let data = fromfile_f16 bs;
               total_elements = 1 * H * W * C
           in if length data \<noteq> total_elements then
                (if length data < total_elements
                 then (Inl ValueError, [SizeWarning total_elements (length data)])
                 else (organize H W C astype (take total_elements data) format_type,
                       [SizeWarning total_elements (length data)]))
              else (organize H W C astype data format_type, [])))"

subsection \<open>Names used in the statements\<close>

text \<open>The trace of lines 150-198 of \<^verbatim>\<open>compare_arrays\<close> on two non-empty
  four-dimensional arrays of one shape: everything before the comparison proper.\<close>

definition preamble :: "event list" where
  "preamble = [ShapeCheck True, DebugAnalysis, DebugAnalysis, Statistics, Difference]"

text \<open>
  What \<^verbatim>\<open>np.isclose\<close> computes at \<^verbatim>\<open>rtol = atol = 0\<close>: with no tolerance two values are
  close exactly when they are equal. This instance of the parameter \<open>isclose\<close> serves
  the concrete runs below; its tolerance type has the one value that stands for 0.
\<close>

definition isclose_zero :: "unit \<Rightarrow> unit \<Rightarrow> f16 \<Rightarrow> f16 \<Rightarrow> bool" where
  "isclose_zero rtol atol x y \<longleftrightarrow> f16_eq x y"

section \<open>Properties\<close>

subsection \<open>Index arithmetic\<close>

lemma ravel_less: "list_all2 (<) idx shp \<Longrightarrow> ravel shp idx < prod_list shp"
proof (induction shp idx rule: ravel.induct)
  case (1 d ds i "is")
  then have i: "i < d" and r: "ravel ds is < prod_list ds" by auto
  have "i * prod_list ds + ravel ds is < i * prod_list ds + prod_list ds" using r by simp
  also have "\<dots> = (Suc i) * prod_list ds" by simp
  also have "\<dots> \<le> d * prod_list ds" using i by (intro mult_le_mono1) simp
  finally show ?case by simp
qed auto






lemma transpose_0231:
  "transpose_nd [0, 2, 3, 1] \<lparr>shape = [N, C, H, W], elems = xs\<rparr> =
     Inr \<lparr>shape = [N, H, W, C],
          elems = map (\<lambda>p. xs ! ravel [N, C, H, W] (source_index [0, 2, 3, 1] (unravel [N, H, W, C] p)))
                      [0..<prod_list [N, H, W, C]]\<rparr>"
  by (simp add: transpose_nd_def Let_def)







lemma nchw_to_nhwc_eq:
  assumes "length buf = H * W * C"
  shows "nchw_to_nhwc H W C (nd_flat buf) =
     Inr \<lparr>shape = [1, H, W, C],
          elems = map (\<lambda>p. buf ! ravel [1, C, H, W] (source_index [0, 2, 3, 1] (unravel [1, H, W, C] p)))
                      [0..<prod_list [1, H, W, C]]\<rparr>"
proof -
  have "reshape [1, C, H, W] (nd_flat buf) = Inr \<lparr>shape = [1, C, H, W], elems = buf\<rparr>"
    using assms by (simp add: reshape_def nd_flat_def mult.commute mult.left_commute)
  then show ?thesis
    by (simp only: nchw_to_nhwc_def sum.case transpose_0231)
qed

subsection \<open>Layout conversion\<close>



subsection \<open>The comparison: its two entry paths\<close>

lemmas run_defs = compare_arrays_def analyze_debug_output_def nd_size_def DEBUG_MODE_def
  restricted_counts_def DEBUG_MAX_PILLARS_def channel_vector_def nd_get_def np_allclose_def
  f16_eq_def is_nan_def is_zero_def full_comparison_def np_array_equal_def count_nonzero_def
  isclose_zero_def preamble_def Let_def

lemma eligible_tuple:
  "eligible a (batch_id, x, y, r) \<longleftrightarrow> batch_id = 0 \<and> unat x < shape a ! 2 \<and> unat y < shape a ! 1"
  by (simp add: eligible_def)

lemma cell_matches_tuple:
  "cell_matches isclose tol a b (batch_id, x, y, r) \<longleftrightarrow>
     np_allclose isclose tol tol (channel_vector a (unat y) (unat x)) (channel_vector b (unat y) (unat x))"
  by (simp add: cell_matches_def)

lemma restricted_loop_counts:
  "restricted_loop isclose tol a b cs (m, t) =
     (m + length (filter (\<lambda>r. eligible a r \<and> cell_matches isclose tol a b r) cs),
      t + length (filter (eligible a) cs))"
proof (induction cs arbitrary: m t)
  case Nil
  then show ?case by simp
next
  case (Cons rec cs)
  obtain batch_id x y r where rec: "rec = (batch_id, x, y, r)" by (cases rec) auto
  show ?case
    unfolding rec by (simp add: Cons.IH eligible_tuple cell_matches_tuple)
qed

lemma restricted_counts_filter:
  "restricted_counts isclose tol window a b coords =
     (length (filter (\<lambda>r. eligible a r \<and> cell_matches isclose tol a b r) (take window coords)),
      length (filter (eligible a) (take window coords)))"
  by (simp add: restricted_counts_def restricted_loop_counts)

lemma matched_le_checked:
  "fst (restricted_counts isclose tol window a b coords)
     \<le> snd (restricted_counts isclose tol window a b coords)"
proof -
  have "length (filter (\<lambda>r. eligible a r \<and> cell_matches isclose tol a b r) xs)
          \<le> length (filter (eligible a) xs)" for xs
    by (induction xs) auto
  then show ?thesis by (simp add: restricted_counts_filter)
qed

lemma analyze_ok:
  "length (shape a) = 4 \<Longrightarrow> 0 < nd_size a \<Longrightarrow> \<exists>d. analyze_debug_output a coords = Inr d"
  by (simp add: analyze_debug_output_def)

lemma compare_arrays_without_coords:
  assumes "shape arr1 = shape arr2" "length (shape arr1) = 4" "0 < nd_size arr1"
  shows "compare_arrays isclose arr1 arr2 tol None = full_comparison isclose tol arr1 arr2 preamble"
proof -
  have "0 < nd_size arr2" using assms by (simp add: nd_size_def)
  then show ?thesis using assms
    by (simp add: compare_arrays_def analyze_debug_output_def DEBUG_MODE_def preamble_def)
qed

lemma compare_arrays_with_coords:
  assumes "shape arr1 = shape arr2" "length (shape arr1) = 4" "0 < nd_size arr1"
  shows "compare_arrays isclose arr1 arr2 tol (Some coords) =
     (case restricted_counts isclose tol DEBUG_MAX_PILLARS arr1 arr2 coords of
        (m, t) \<Rightarrow>
          if m = t then (Inr True, preamble @ [RestrictedRate m t, RestrictedOk])
          else full_comparison isclose tol arr1 arr2 (preamble @ [RestrictedRate m t]))"
proof -
  have "0 < nd_size arr2" using assms by (simp add: nd_size_def)
  then show ?thesis using assms
    by (simp add: compare_arrays_def analyze_debug_output_def DEBUG_MODE_def preamble_def Let_def
          split: prod.split)
qed

lemma full_comparison_no_restricted_ok:
  "RestrictedOk \<in> set (snd (full_comparison isclose tol a b tr)) \<longleftrightarrow> RestrictedOk \<in> set tr"
  by (simp add: full_comparison_def)

lemma preamble_no_restricted_ok: "RestrictedOk \<notin> set preamble"
  by (simp add: preamble_def)

lemma full_comparison_fst:
  "fst (full_comparison isclose tol a b tr)
     = Inr (np_array_equal a b \<or> np_allclose isclose tol tol (elems a) (elems b))"
  by (simp add: full_comparison_def)

lemma length4: "length xs = 4 \<Longrightarrow> \<exists>a b c d. xs = [a, b, c, d]"
  by (simp add: numeral_eq_Suc length_Suc_conv) blast

lemma channel_vectors_related:
  assumes all: "list_all2 P (elems a) (elems b)"
    and sa: "shape a = [N, H, W, C]" and sb: "shape b = [N, H, W, C]"
    and wf: "nd_wf a" and n: "0 < N" and y: "y < H" and x: "x < W"
  shows "list_all2 P (channel_vector a y x) (channel_vector b y x)"
proof -
  have "P (elems a ! ravel [N, H, W, C] [0, y, x, c]) (elems b ! ravel [N, H, W, C] [0, y, x, c])"
    if "c < C" for c
  proof -
    have "list_all2 (<) [0, y, x, c] [N, H, W, C]" using n y x that by simp
    then have "ravel [N, H, W, C] [0, y, x, c] < prod_list [N, H, W, C]" by (rule ravel_less)
    then have "ravel [N, H, W, C] [0, y, x, c] < length (elems a)"
      using wf sa by (simp add: nd_wf_def)
    then show ?thesis by (rule list_all2_nthD [OF all])
  qed
  then show ?thesis
    by (simp add: channel_vector_def nd_get_def sa sb list_all2_map1 list_all2_map2 list_all2_same
        del: ravel.simps)
qed

lemma all_cells_match:
  assumes all: "list_all2 (isclose tol tol) (elems a) (elems b)"
    and s: "shape a = shape b" and l: "length (shape a) = 4" and pos: "0 < nd_size a" and wf: "nd_wf a"
  shows "eligible a rec \<Longrightarrow> cell_matches isclose tol a b rec"
proof -
  assume e: "eligible a rec"
  obtain batch_id x y r where rec: "rec = (batch_id, x, y, r)" by (cases rec) auto
  from length4 [OF l] obtain N H W C where sa: "shape a = [N, H, W, C]" by blast
  have n: "0 < N" using pos sa by (simp add: nd_size_def)
  from e have "unat y < H" "unat x < W" by (simp_all add: rec eligible_tuple sa)
  then have "list_all2 (isclose tol tol) (channel_vector a (unat y) (unat x)) (channel_vector b (unat y) (unat x))"
    using channel_vectors_related [OF all sa _ wf n] s sa by simp
  then show ?thesis by (simp add: rec cell_matches_tuple np_allclose_def)
qed

lemma full_pass_all_matched:
  assumes s: "shape a = shape b" and l: "length (shape a) = 4" and pos: "0 < nd_size a"
    and wf: "nd_wf a"
    and eqc: "\<forall>x y. f16_eq x y \<longrightarrow> isclose tol tol x y"
    and pass: "np_array_equal a b \<or> np_allclose isclose tol tol (elems a) (elems b)"
  shows "fst (restricted_counts isclose tol window a b coords)
           = snd (restricted_counts isclose tol window a b coords)"
proof -
  have all: "list_all2 (isclose tol tol) (elems a) (elems b)"
  proof (cases "np_array_equal a b")
    case True
    then have "list_all2 f16_eq (elems a) (elems b)" by (simp add: np_array_equal_def)
    then show ?thesis by (rule list_all2_mono) (simp add: eqc)
  next
    case False
    with pass show ?thesis by (simp add: np_allclose_def)
  qed
  have "filter (\<lambda>r. eligible a r \<and> cell_matches isclose tol a b r) xs = filter (eligible a) xs" for xs
    using all_cells_match [of isclose tol a b, OF all s l pos wf] by (intro filter_cong) auto
  then show ?thesis by (simp add: restricted_counts_filter)
qed

lemma f16_eq_refl: "\<not> is_nan w \<Longrightarrow> f16_eq w w"
  by (simp add: f16_eq_def)

subsection \<open>Shape mismatch\<close>

text \<open>
  C6. For every pair of arrays of differing shape, \<^verbatim>\<open>compare_arrays\<close> returns False
  right after the shape check: the trace holds the failed check and nothing else, so no
  analysis, statistics, difference or comparison is computed, whatever the tolerance and
  the coordinates.
\<close>

theorem shape_mismatch_stops:
  assumes "shape arr1 \<noteq> shape arr2"
  shows "compare_arrays isclose arr1 arr2 tol coords = (Inr False, [ShapeCheck False])"
  using assms by (simp add: compare_arrays_def)

theorem shape_mismatch_stops_witness:
  "shape \<lparr>shape = [1, 1, 1, 1], elems = [0x3C00 :: f16]\<rparr>
     \<noteq> shape \<lparr>shape = [1, 1, 1, 2], elems = [0x3C00, 0x3C00 :: f16]\<rparr>
   \<and> compare_arrays isclose_zero
        \<lparr>shape = [1, 1, 1, 1], elems = [0x3C00]\<rparr>
        \<lparr>shape = [1, 1, 1, 2], elems = [0x3C00, 0x3C00]\<rparr> () (Some [(0, 0, 0, 0)])
       = (Inr False, [ShapeCheck False])"
  using shape_mismatch_stops [of "\<lparr>shape = [1, 1, 1, 1], elems = [0x3C00 :: f16]\<rparr>"
      "\<lparr>shape = [1, 1, 1, 2], elems = [0x3C00, 0x3C00 :: f16]\<rparr>"
      isclose_zero "()" "Some [(0, 0, 0, 0)]"]
  by simp

subsection \<open>The restricted comparison\<close>

text \<open>
  C5. Over the window prefix of the coordinate table, \<open>total_checked\<close> is the number of
  eligible records and \<open>match_count\<close> the number of eligible records whose cell
  matches; a record is eligible exactly when its batch id is 0, its \<open>x\<close> is below the
  width and its \<open>y\<close> below the height of the first array. Ineligible records add to
  neither count. For the table \<open>[(0, 5, 5, 0), (1, 3, 3, 0), (0, 10000, 2, 0)]\<close> on a
  grid with more than 5 rows and more than 5 but at most 10000 columns, one record is
  checked, with the window 3 as with the window \<open>DEBUG_MAX_PILLARS\<close> of the script,
  whatever the two grids hold.
\<close>

theorem eligible_records_counted:
  "restricted_counts isclose tol window arr1 arr2 coords =
     (length (filter (\<lambda>r. eligible arr1 r \<and> cell_matches isclose tol arr1 arr2 r) (take window coords)),
      length (filter (eligible arr1) (take window coords)))
   \<and> (eligible arr1 (batch_id, x, y, r) \<longleftrightarrow>
        batch_id = 0 \<and> unat x < shape arr1 ! 2 \<and> unat y < shape arr1 ! 1)
   \<and> (shape arr1 = [N, H, W, C] \<longrightarrow> 5 < H \<longrightarrow> 5 < W \<longrightarrow> W \<le> 10000 \<longrightarrow>
        snd (restricted_counts isclose tol 3 arr1 arr2
               [(0, 5, 5, 0), (1, 3, 3, 0), (0, 10000, 2, 0)]) = 1
        \<and> snd (restricted_counts isclose tol DEBUG_MAX_PILLARS arr1 arr2
               [(0, 5, 5, 0), (1, 3, 3, 0), (0, 10000, 2, 0)]) = 1)"
proof -
  have counts: "restricted_counts isclose tol w arr1 arr2 cs =
     (length (filter (\<lambda>r. eligible arr1 r \<and> cell_matches isclose tol arr1 arr2 r) (take w cs)),
      length (filter (eligible arr1) (take w cs)))" for w cs
    by (rule restricted_counts_filter)
  have one: "length (filter (eligible arr1) [(0, 5, 5, 0), (1, 3, 3, 0), (0, 10000, 2, 0)]) = 1"
    if "shape arr1 = [N, H, W, C]" "5 < H" "5 < W" "W \<le> 10000"
    using that by (simp add: eligible_tuple)
  show ?thesis
    using one by (simp add: counts eligible_tuple DEBUG_MAX_PILLARS_def)
qed

theorem eligible_records_counted_witness:
  "snd (restricted_counts isclose_zero () 3
          \<lparr>shape = [1, 6, 6, 1], elems = replicate 36 0x3C00\<rparr>
          \<lparr>shape = [1, 6, 6, 1], elems = replicate 36 0x0000\<rparr>
          [(0, 5, 5, 0), (1, 3, 3, 0), (0, 10000, 2, 0)]) = 1
   \<and> snd (restricted_counts isclose_zero () DEBUG_MAX_PILLARS
          \<lparr>shape = [1, 6, 6, 1], elems = replicate 36 0x3C00\<rparr>
          \<lparr>shape = [1, 6, 6, 1], elems = replicate 36 0x0000\<rparr>
          [(0, 5, 5, 0), (1, 3, 3, 0), (0, 10000, 2, 0)]) = 1"
proof -
  have shp: "shape \<lparr>shape = [1, 6, 6, 1], elems = replicate 36 (0x3C00 :: f16)\<rparr> = [1, 6, 6, 1]"
    by simp
  have bounds: "(5 :: nat) < 6" "(6 :: nat) \<le> 10000"
    by simp_all
  from eligible_records_counted [of isclose_zero "()" 3
      "\<lparr>shape = [1, 6, 6, 1], elems = replicate 36 0x3C00\<rparr>"
      "\<lparr>shape = [1, 6, 6, 1], elems = replicate 36 0x0000\<rparr>" "[]" 0 0 0 0 1 6 6 1]
  show ?thesis
    using shp bounds by blast
qed

text \<open>
  C1, as the code has it. For two non-empty four-dimensional arrays of one shape and a
  coordinate table, the restricted block reports a pass exactly when \<open>match_count\<close>
  equals \<open>total_checked\<close>, and then \<^verbatim>\<open>compare_arrays\<close> returns True. There is no test
  that anything was checked: with \<open>total_checked = 0\<close> the two counts are equal, the
  block reports the same pass and the function returns True, with no outcome of its own
  for a table without eligible records.
\<close>

theorem restricted_pass_is_all_matched:
  assumes "shape arr1 = shape arr2" "length (shape arr1) = 4" "0 < nd_size arr1"
  shows "(RestrictedOk \<in> set (snd (compare_arrays isclose arr1 arr2 tol (Some coords)))
            \<longleftrightarrow> fst (restricted_counts isclose tol DEBUG_MAX_PILLARS arr1 arr2 coords)
                 = snd (restricted_counts isclose tol DEBUG_MAX_PILLARS arr1 arr2 coords))
       \<and> (fst (restricted_counts isclose tol DEBUG_MAX_PILLARS arr1 arr2 coords)
            = snd (restricted_counts isclose tol DEBUG_MAX_PILLARS arr1 arr2 coords)
          \<longrightarrow> fst (compare_arrays isclose arr1 arr2 tol (Some coords)) = Inr True)
       \<and> (snd (restricted_counts isclose tol DEBUG_MAX_PILLARS arr1 arr2 coords) = 0
          \<longrightarrow> compare_arrays isclose arr1 arr2 tol (Some coords)
              = (Inr True, preamble @ [RestrictedRate 0 0, RestrictedOk]))"
proof -
  obtain m t where mt: "restricted_counts isclose tol DEBUG_MAX_PILLARS arr1 arr2 coords = (m, t)"
    by (cases "restricted_counts isclose tol DEBUG_MAX_PILLARS arr1 arr2 coords")
  have le: "m \<le> t"
    using matched_le_checked [of isclose tol DEBUG_MAX_PILLARS arr1 arr2 coords] by (simp add: mt)
  show ?thesis
    using le
    by (simp add: compare_arrays_with_coords [OF assms] mt full_comparison_no_restricted_ok
        preamble_no_restricted_ok)
qed

text \<open>A run with one eligible record, whose cell matches, and one record out of bounds.\<close>

theorem restricted_pass_is_all_matched_witness:
  "shape \<lparr>shape = [1, 1, 1, 1], elems = [0x3C00 :: f16]\<rparr>
     = shape \<lparr>shape = [1, 1, 1, 1], elems = [0x3C00 :: f16]\<rparr>
   \<and> length (shape \<lparr>shape = [1, 1, 1, 1], elems = [0x3C00 :: f16]\<rparr>) = 4
   \<and> 0 < nd_size \<lparr>shape = [1, 1, 1, 1], elems = [0x3C00 :: f16]\<rparr>
   \<and> restricted_counts isclose_zero () DEBUG_MAX_PILLARS
        \<lparr>shape = [1, 1, 1, 1], elems = [0x3C00]\<rparr> \<lparr>shape = [1, 1, 1, 1], elems = [0x3C00]\<rparr>
        [(0, 0, 0, 0), (0, 7, 0, 0)] = (1, 1)
   \<and> RestrictedOk \<in> set (snd (compare_arrays isclose_zero
        \<lparr>shape = [1, 1, 1, 1], elems = [0x3C00]\<rparr> \<lparr>shape = [1, 1, 1, 1], elems = [0x3C00]\<rparr>
        () (Some [(0, 0, 0, 0), (0, 7, 0, 0)])))
   \<and> fst (compare_arrays isclose_zero
        \<lparr>shape = [1, 1, 1, 1], elems = [0x3C00]\<rparr> \<lparr>shape = [1, 1, 1, 1], elems = [0x3C00]\<rparr>
        () (Some [(0, 0, 0, 0), (0, 7, 0, 0)])) = Inr True"
proof -
  let ?g = "\<lparr>shape = [1, 1, 1, 1], elems = [0x3C00 :: f16]\<rparr>"
  have h1: "shape ?g = shape ?g" by simp
  have h2: "length (shape ?g) = 4" by simp
  have h3: "0 < nd_size ?g" by (simp add: nd_size_def)
  have counts: "restricted_counts isclose_zero () DEBUG_MAX_PILLARS ?g ?g
                  [(0, 0, 0, 0), (0, 7, 0, 0)] = (1, 1)"
    by (simp add: run_defs)
  have same: "fst (restricted_counts isclose_zero () DEBUG_MAX_PILLARS ?g ?g
                     [(0, 0, 0, 0), (0, 7, 0, 0)])
            = snd (restricted_counts isclose_zero () DEBUG_MAX_PILLARS ?g ?g
                     [(0, 0, 0, 0), (0, 7, 0, 0)])"
    by (simp only: counts fst_conv snd_conv)
  from restricted_pass_is_all_matched [OF h1 h2 h3, of isclose_zero "()" "[(0, 0, 0, 0), (0, 7, 0, 0)]"]
  show ?thesis
    using h2 h3 counts same by blast
qed

text \<open>
  The claim as the spec words it asks for \<open>total_checked > 0\<close>. Here the output holds
  1.0 and the reference 0.0 in their one cell, the only record has batch id 1 and is not
  eligible, nothing is checked, and the run passes.
\<close>

theorem no_eligible_cells_passes:
  "restricted_counts isclose_zero () DEBUG_MAX_PILLARS
        \<lparr>shape = [1, 1, 1, 1], elems = [0x3C00]\<rparr> \<lparr>shape = [1, 1, 1, 1], elems = [0x0000]\<rparr>
        [(1, 0, 0, 0)] = (0, 0)
   \<and> compare_arrays isclose_zero
        \<lparr>shape = [1, 1, 1, 1], elems = [0x3C00]\<rparr> \<lparr>shape = [1, 1, 1, 1], elems = [0x0000]\<rparr>
        () (Some [(1, 0, 0, 0)])
       = (Inr True, [ShapeCheck True, DebugAnalysis, DebugAnalysis, Statistics, Difference,
                     RestrictedRate 0 0, RestrictedOk])"
  by (simp add: run_defs)

text \<open>
  C2. For two non-empty four-dimensional arrays of one shape and a coordinate table, the
  verdict of \<^verbatim>\<open>compare_arrays\<close> is the verdict of the restricted block. After a failed
  restricted block control does reach the full comparison (lines 228-236), but that
  cannot pass then: the cell that failed is part of both arrays, so the arrays are
  neither equal nor within tolerance. The step from equal to close is the one property
  of \<^verbatim>\<open>np.isclose\<close> used: two equal values are close at the tolerance of the call, as
  they are at every tolerance that is not negative.
\<close>

theorem restricted_verdict_is_the_outcome:
  assumes s: "shape arr1 = shape arr2" and l: "length (shape arr1) = 4" and pos: "0 < nd_size arr1"
    and wf: "nd_wf arr1"
    and eqc: "\<forall>x y. f16_eq x y \<longrightarrow> isclose tol tol x y"
  shows "fst (compare_arrays isclose arr1 arr2 tol (Some coords))
           = Inr (fst (restricted_counts isclose tol DEBUG_MAX_PILLARS arr1 arr2 coords)
                  = snd (restricted_counts isclose tol DEBUG_MAX_PILLARS arr1 arr2 coords))
       \<and> (fst (restricted_counts isclose tol DEBUG_MAX_PILLARS arr1 arr2 coords)
            < snd (restricted_counts isclose tol DEBUG_MAX_PILLARS arr1 arr2 coords)
          \<longrightarrow> fst (compare_arrays isclose arr1 arr2 tol (Some coords)) = Inr False
              \<and> \<not> np_array_equal arr1 arr2
              \<and> \<not> np_allclose isclose tol tol (elems arr1) (elems arr2))"
proof -
  obtain m t where mt: "restricted_counts isclose tol DEBUG_MAX_PILLARS arr1 arr2 coords = (m, t)"
    by (cases "restricted_counts isclose tol DEBUG_MAX_PILLARS arr1 arr2 coords")
  have fail: "\<not> (np_array_equal arr1 arr2 \<or> np_allclose isclose tol tol (elems arr1) (elems arr2))"
    if "m \<noteq> t"
    using full_pass_all_matched [of arr1 arr2 isclose tol DEBUG_MAX_PILLARS coords] s l pos wf eqc that
    by (auto simp: mt)
  show ?thesis
    using fail
    by (auto simp: compare_arrays_with_coords [OF s l pos] mt full_comparison_fst)
qed

text \<open>A run whose one checked cell differs in its last bit: the restricted block fails
  with 0 of 1, the full comparison runs and fails too, and the verdict is False.\<close>

theorem restricted_verdict_is_the_outcome_witness:
  "shape \<lparr>shape = [1, 1, 1, 1], elems = [0x3C00 :: f16]\<rparr>
     = shape \<lparr>shape = [1, 1, 1, 1], elems = [0x3C01 :: f16]\<rparr>
   \<and> length (shape \<lparr>shape = [1, 1, 1, 1], elems = [0x3C00 :: f16]\<rparr>) = 4
   \<and> 0 < nd_size \<lparr>shape = [1, 1, 1, 1], elems = [0x3C00 :: f16]\<rparr>
   \<and> nd_wf \<lparr>shape = [1, 1, 1, 1], elems = [0x3C00 :: f16]\<rparr>
   \<and> restricted_counts isclose_zero () DEBUG_MAX_PILLARS
        \<lparr>shape = [1, 1, 1, 1], elems = [0x3C00]\<rparr> \<lparr>shape = [1, 1, 1, 1], elems = [0x3C01]\<rparr>
        [(0, 0, 0, 0)] = (0, 1)
   \<and> fst (compare_arrays isclose_zero
        \<lparr>shape = [1, 1, 1, 1], elems = [0x3C00]\<rparr> \<lparr>shape = [1, 1, 1, 1], elems = [0x3C01]\<rparr>
        () (Some [(0, 0, 0, 0)])) = Inr False"
proof -
  let ?a = "\<lparr>shape = [1, 1, 1, 1], elems = [0x3C00 :: f16]\<rparr>"
  let ?b = "\<lparr>shape = [1, 1, 1, 1], elems = [0x3C01 :: f16]\<rparr>"
  have h1: "shape ?a = shape ?b" by simp
  have h2: "length (shape ?a) = 4" by simp
  have h3: "0 < nd_size ?a" by (simp add: nd_size_def)
  have h4: "nd_wf ?a" by (simp add: nd_wf_def)
  have h5: "\<forall>x y. f16_eq x y \<longrightarrow> isclose_zero () () x y"
    by (simp add: isclose_zero_def)
  have counts: "restricted_counts isclose_zero () DEBUG_MAX_PILLARS ?a ?b [(0, 0, 0, 0)] = (0, 1)"
    by (simp add: run_defs)
  have less: "fst (restricted_counts isclose_zero () DEBUG_MAX_PILLARS ?a ?b [(0, 0, 0, 0)])
            < snd (restricted_counts isclose_zero () DEBUG_MAX_PILLARS ?a ?b [(0, 0, 0, 0)])"
    unfolding counts by simp
  from restricted_verdict_is_the_outcome [of ?a ?b isclose_zero "()" "[(0, 0, 0, 0)]"]
  show ?thesis
    using h1 h2 h3 h4 h5 counts less by blast
qed

subsection \<open>The full comparison\<close>















text \<open>
  C7, as the code has it. For every non-empty four-dimensional grid none of whose
  elements is a NaN, the grid equals itself under \<^verbatim>\<open>np.array_equal\<close>, and the full
  comparison of the grid with itself evaluates the exact check to True and returns True,
  at every tolerance and for every elementwise closeness test.
\<close>

theorem self_comparison_exact_without_nan:
  assumes l: "length (shape A) = 4" and pos: "0 < nd_size A"
    and nan: "\<forall>w \<in> set (elems A). \<not> is_nan w"
  shows "np_array_equal A A
       \<and> compare_arrays isclose A A tol None = (Inr True, preamble @ [ArrayEqual True])"
proof -
  have "list_all2 f16_eq (elems A) (elems A)"
    using nan by (simp add: list_all2_same f16_eq_refl)
  then have eq: "np_array_equal A A" by (simp add: np_array_equal_def)
  then show ?thesis
    by (simp add: compare_arrays_without_coords [OF refl l pos] full_comparison_def)
qed

theorem self_comparison_exact_without_nan_witness:
  "length (shape \<lparr>shape = [1, 1, 2, 1], elems = [0x3C00, 0x8000 :: f16]\<rparr>) = 4
   \<and> 0 < nd_size \<lparr>shape = [1, 1, 2, 1], elems = [0x3C00, 0x8000 :: f16]\<rparr>
   \<and> \<not> is_nan 0x3C00 \<and> \<not> is_nan 0x8000
   \<and> np_array_equal \<lparr>shape = [1, 1, 2, 1], elems = [0x3C00, 0x8000]\<rparr>
                     \<lparr>shape = [1, 1, 2, 1], elems = [0x3C00, 0x8000]\<rparr>
   \<and> compare_arrays isclose_zero
        \<lparr>shape = [1, 1, 2, 1], elems = [0x3C00, 0x8000]\<rparr>
        \<lparr>shape = [1, 1, 2, 1], elems = [0x3C00, 0x8000]\<rparr> () None
       = (Inr True, preamble @ [ArrayEqual True])"
proof -
  let ?g = "\<lparr>shape = [1, 1, 2, 1], elems = [0x3C00, 0x8000 :: f16]\<rparr>"
  have h1: "length (shape ?g) = 4" by simp
  have h2: "0 < nd_size ?g" by (simp add: nd_size_def)
  have n1: "\<not> is_nan 0x3C00" and n2: "\<not> is_nan 0x8000"
    by (simp_all add: is_nan_def)
  then have h3: "\<forall>w \<in> set (elems ?g). \<not> is_nan w" by simp
  from self_comparison_exact_without_nan [OF h1 h2 h3, of isclose_zero "()"]
  show ?thesis
    using h1 h2 n1 n2 by blast
qed

text \<open>
  The claim as the spec words it covers every grid. A grid whose one element is the NaN
  \<open>0x7E00\<close> is not equal to itself: the exact check is False, and so is the verdict.
\<close>

theorem nan_grid_differs_from_itself:
  "\<not> np_array_equal \<lparr>shape = [1, 1, 1, 1], elems = [0x7E00]\<rparr>
                      \<lparr>shape = [1, 1, 1, 1], elems = [0x7E00]\<rparr>
   \<and> compare_arrays isclose_zero
        \<lparr>shape = [1, 1, 1, 1], elems = [0x7E00]\<rparr> \<lparr>shape = [1, 1, 1, 1], elems = [0x7E00]\<rparr> () None
       = (Inr False, [ShapeCheck True, DebugAnalysis, DebugAnalysis, Statistics, Difference,
                      ArrayEqual False, AllClose False, MismatchReport])"
  by (simp add: run_defs)

subsection \<open>The coordinate loader\<close>

lemma length_fromfile_u32: "length (fromfile_u32 bs) = length bs div 4"
  by (induction bs rule: fromfile_u32.induct) simp_all

text \<open>
  C9, as the code has it. \<^verbatim>\<open>load_coords_file\<close> returns None for a missing file and
  None again for a file whose count of whole 32-bit items is not a multiple of 4; the two
  cases differ in the line printed and in nothing the caller receives. Every other file
  loads as its rows, trailing bytes that fill no item being ignored. The driver, given
  None, goes on without a table in both cases.
\<close>

theorem coords_load_failures_both_none:
  "(fs filename = None \<longrightarrow> load_coords_file fs filename = (None, [CoordsFileMissing]))
   \<and> (fs filename = Some bs \<longrightarrow> length bs div 4 mod 4 \<noteq> 0 \<longrightarrow>
        load_coords_file fs filename = (None, [CoordsReadError]))
   \<and> (fs filename = Some bs \<longrightarrow> length bs div 4 mod 4 = 0 \<longrightarrow>
        load_coords_file fs filename = (Some (rows4 (fromfile_u32 bs)), []))
   \<and> (fst (load_coords_file fs coords_path) = None \<longrightarrow>
        fst (coords_stage fs) = None \<and> CoordsUnavailable \<in> set (snd (coords_stage fs)))"
proof -
  have missing: "load_coords_file fs filename = (None, [CoordsFileMissing])"
    if "fs filename = None"
    using that by (simp add: load_coords_file_def)
  have malformed: "load_coords_file fs filename = (None, [CoordsReadError])"
    if "fs filename = Some bs" "length bs div 4 mod 4 \<noteq> 0"
    using that by (simp add: load_coords_file_def reshape_rows4_def length_fromfile_u32)
  have loaded: "load_coords_file fs filename = (Some (rows4 (fromfile_u32 bs)), [])"
    if "fs filename = Some bs" "length bs div 4 mod 4 = 0"
    using that by (simp add: load_coords_file_def reshape_rows4_def length_fromfile_u32)
  have degrade: "fst (coords_stage fs) = None \<and> CoordsUnavailable \<in> set (snd (coords_stage fs))"
    if "fst (load_coords_file fs coords_path) = None"
    using that by (cases "load_coords_file fs coords_path") (simp add: coords_stage_def DEBUG_MODE_def)
  from missing malformed loaded degrade show ?thesis by blast
qed

text \<open>A four-byte file holds one item, not a whole record.\<close>

theorem coords_load_failures_both_none_witness:
  "load_coords_file (\<lambda>p. Some [7, 0, 0, 0]) ''coords.bin'' = (None, [CoordsReadError])
   \<and> load_coords_file (\<lambda>p. None) ''coords.bin'' = (None, [CoordsFileMissing])"
proof -
  have h: "length [7, 0, 0, 0 :: byte] div 4 mod 4 \<noteq> 0" by simp
  from coords_load_failures_both_none [of "\<lambda>p. Some [7, 0, 0, 0]" "''coords.bin''" "[7, 0, 0, 0]"]
    coords_load_failures_both_none [of "\<lambda>p. None" "''coords.bin''" "[]"]
  show ?thesis
    using h by blast
qed

text \<open>
  The claim as the spec words it has the caller tell the two failures apart. The value
  returned for a missing file and the value returned for a four-byte file are the same
  None.
\<close>

theorem missing_and_malformed_coords_same_result:
  "fst (load_coords_file (\<lambda>p. None) ''coords.bin'') = None
   \<and> fst (load_coords_file (\<lambda>p. Some [7, 0, 0, 0]) ''coords.bin'') = None
   \<and> fst (load_coords_file (\<lambda>p. None) ''coords.bin'')
       = fst (load_coords_file (\<lambda>p. Some [7, 0, 0, 0]) ''coords.bin'')"
  by (simp add: load_coords_file_def reshape_rows4_def)

subsection \<open>The grid loader\<close>

lemma organize_shape:
  assumes "length xs = H * W * C" "upper fmt = ''NHWC'' \<or> upper fmt = ''NCHW''"
  shows "\<exists>g. organize H W C astype xs fmt = Inr g \<and> shape g = [1, H, W, C] \<and> nd_wf g"
proof (cases "upper fmt = ''NHWC''")
  case True
  then show ?thesis using assms(1)
    by (simp add: organize_def reshape_def nd_flat_def nd_wf_def mult.assoc)
next
  case False
  with assms(2) have "upper fmt = ''NCHW''" by simp
  then show ?thesis using False nchw_to_nhwc_eq [OF assms(1)]
    by (simp add: organize_def nd_wf_def del: prod_list.Cons)
qed

text \<open>
  C8, as the code has it. For all \<open>H\<close>, \<open>W\<close>, \<open>C\<close>: on a file of more than
  \<open>H * W * C\<close> elements \<^verbatim>\<open>load_feature_map\<close> prints the size warning, keeps the first
  \<open>H * W * C\<close> elements, raises nothing for a known layout and returns the grid built
  from that prefix, of shape \<open>[1, H, W, C]\<close>; the truncation is flagged in the printed
  line only, the returned value being the grid alone. On a file of fewer elements it
  prints the same warning and raises ValueError, returning no grid.
\<close>

theorem oversized_truncated_undersized_rejected:
  assumes "fs filename = Some bs"
  shows "(H * W * C < length (fromfile_f16 bs) \<longrightarrow>
           load_feature_map H W C astype fs filename fmt
             = (organize H W C astype (take (H * W * C) (fromfile_f16 bs)) fmt,
                [SizeWarning (H * W * C) (length (fromfile_f16 bs))])
           \<and> (upper fmt = ''NHWC'' \<or> upper fmt = ''NCHW'' \<longrightarrow>
                (\<exists>g. fst (load_feature_map H W C astype fs filename fmt) = Inr g
                     \<and> shape g = [1, H, W, C] \<and> nd_wf g)))
       \<and> (length (fromfile_f16 bs) < H * W * C \<longrightarrow>
           load_feature_map H W C astype fs filename fmt
             = (Inl ValueError, [SizeWarning (H * W * C) (length (fromfile_f16 bs))]))"
proof -
  have "\<exists>g. organize H W C astype (take (H * W * C) (fromfile_f16 bs)) fmt = Inr g
            \<and> shape g = [1, H, W, C] \<and> nd_wf g"
    if "H * W * C < length (fromfile_f16 bs)" "upper fmt = ''NHWC'' \<or> upper fmt = ''NCHW''"
    using that by (intro organize_shape) simp_all
  then show ?thesis using assms
    by (auto simp: load_feature_map_def Let_def)
qed

text \<open>A file of two elements for a grid of one, and a file of one element for a grid of
  two.\<close>

theorem oversized_truncated_undersized_rejected_witness:
  "load_feature_map 1 1 1 (\<lambda>w. w) (\<lambda>p. Some [0x00, 0x3C, 0xFF, 0xFF]) ''x.bin'' ''NCHW''
     = (Inr \<lparr>shape = [1, 1, 1, 1], elems = [0x3C00]\<rparr>, [SizeWarning 1 2])
   \<and> load_feature_map 1 2 1 (\<lambda>w. w) (\<lambda>p. Some [0x00, 0x3C]) ''x.bin'' ''NCHW''
     = (Inl ValueError, [SizeWarning 2 1])"
proof -
  have f2: "(\<lambda>p :: string. Some [0x00, 0x3C, 0xFF, 0xFF :: byte]) ''x.bin''
              = Some [0x00, 0x3C, 0xFF, 0xFF]"
    by simp
  have f1: "(\<lambda>p :: string. Some [0x00, 0x3C :: byte]) ''x.bin'' = Some [0x00, 0x3C]"
    by simp
  have long: "1 * 1 * 1 < length (fromfile_f16 [0x00, 0x3C, 0xFF, 0xFF])" by simp
  have short: "length (fromfile_f16 [0x00, 0x3C]) < 1 * 2 * 1" by simp
  have org: "organize 1 1 1 (\<lambda>w. w) (take (1 * 1 * 1) (fromfile_f16 [0x00, 0x3C, 0xFF, 0xFF])) ''NCHW''
               = Inr \<lparr>shape = [1, 1, 1, 1], elems = [0x3C00]\<rparr>"
    by code_simp
  from oversized_truncated_undersized_rejected
         [of "\<lambda>p. Some [0x00, 0x3C, 0xFF, 0xFF]" "''x.bin''" "[0x00, 0x3C, 0xFF, 0xFF]" 1 1 1
             "\<lambda>w. w" "''NCHW''"] f2 long
  have "load_feature_map 1 1 1 (\<lambda>w. w) (\<lambda>p. Some [0x00, 0x3C, 0xFF, 0xFF]) ''x.bin'' ''NCHW''
     = (organize 1 1 1 (\<lambda>w. w) (take (1 * 1 * 1) (fromfile_f16 [0x00, 0x3C, 0xFF, 0xFF])) ''NCHW'',
        [SizeWarning (1 * 1 * 1) (length (fromfile_f16 [0x00, 0x3C, 0xFF, 0xFF]))])"
    by blast
  then have a: "load_feature_map 1 1 1 (\<lambda>w. w) (\<lambda>p. Some [0x00, 0x3C, 0xFF, 0xFF]) ''x.bin'' ''NCHW''
     = (Inr \<lparr>shape = [1, 1, 1, 1], elems = [0x3C00]\<rparr>, [SizeWarning 1 2])"
    unfolding org by simp
  from oversized_truncated_undersized_rejected
         [of "\<lambda>p. Some [0x00, 0x3C]" "''x.bin''" "[0x00, 0x3C]" 1 2 1 "\<lambda>w. w" "''NCHW''"] f1 short
  have "load_feature_map 1 2 1 (\<lambda>w. w) (\<lambda>p. Some [0x00, 0x3C]) ''x.bin'' ''NCHW''
     = (Inl ValueError, [SizeWarning (1 * 2 * 1) (length (fromfile_f16 [0x00, 0x3C]))])"
    by blast
  then have b: "load_feature_map 1 2 1 (\<lambda>w. w) (\<lambda>p. Some [0x00, 0x3C]) ''x.bin'' ''NCHW''
     = (Inl ValueError, [SizeWarning 2 1])"
    by simp
  from a b show ?thesis by blast
qed

text \<open>
  The claim as the spec words it has the truncation flagged in what the loader returns.
  The value returned for a file of two elements, for a grid of one, is the value returned
  for the file that holds its first element alone; the warning is in the printed trace.
\<close>

theorem truncation_not_in_returned_value:
  "fst (load_feature_map 1 1 1 (\<lambda>w. w) (\<lambda>p. Some [0x00, 0x3C, 0xFF, 0xFF]) ''x.bin'' ''NHWC'')
     = Inr \<lparr>shape = [1, 1, 1, 1], elems = [0x3C00]\<rparr>
   \<and> fst (load_feature_map 1 1 1 (\<lambda>w. w) (\<lambda>p. Some [0x00, 0x3C]) ''x.bin'' ''NHWC'')
     = Inr \<lparr>shape = [1, 1, 1, 1], elems = [0x3C00]\<rparr>
   \<and> snd (load_feature_map 1 1 1 (\<lambda>w. w) (\<lambda>p. Some [0x00, 0x3C, 0xFF, 0xFF]) ''x.bin'' ''NHWC'')
     = [SizeWarning 1 2]"
  by (simp add: load_feature_map_def organize_def upper_def reshape_def nd_flat_def Let_def)

subsection \<open>The driver\<close>

lemma coords_stage_events:
  "e \<in> set (snd (coords_stage fs)) \<Longrightarrow>
     e = CoordsFileMissing \<or> e = CoordsReadError \<or> e = CoordsUnavailable \<or> (\<exists>n. e = CoordsLoaded n)"
  by (auto simp: coords_stage_def load_coords_file_def split: option.splits sum.splits if_splits)

text \<open>
  C10. When the output file and the reference file exist, have one size and one MD5
  digest, as two byte-identical files do, \<^verbatim>\<open>main\<close> exits with code 0 right after the
  digest check. Its trace holds the loading of the coordinate table and the digest
  line only: no grid is loaded, reshaped, transposed or compared, so the outcome does
  not depend on the closeness test, the tolerance, the layout or the table's content.
\<close>

theorem identical_digests_pass_before_loading:
  assumes "fs (output_path argv) = Some out_bytes" "fs (correct_path argv) = Some ref_bytes"
    and "length out_bytes = length ref_bytes" "md5 out_bytes = md5 ref_bytes"
  shows "main md5 isclose tol argv fs = (Inr 0, snd (coords_stage fs) @ [Md5Identical])
       \<and> (\<forall>e \<in> set (snd (main md5 isclose tol argv fs)).
            e = Md5Identical \<or> e = CoordsFileMissing \<or> e = CoordsReadError
            \<or> e = CoordsUnavailable \<or> (\<exists>n. e = CoordsLoaded n))"
proof -
  have m: "main md5 isclose tol argv fs = (Inr 0, snd (coords_stage fs) @ [Md5Identical])"
    using assms by (simp add: main_def split: prod.splits)
  show ?thesis
    using coords_stage_events [of _ fs] by (auto simp: m)
qed

text \<open>Two files with the same three bytes, named on the command line, and a coordinate
  file of one record; the digest is the content itself.\<close>

theorem identical_digests_pass_before_loading_witness:
  "main (\<lambda>bs. bs) isclose_zero () [''check.py'', ''out.bin'', ''ref.bin'']
     [''out.bin'' \<mapsto> [1, 2, 3], ''ref.bin'' \<mapsto> [1, 2, 3],
      ''./input/OpTest_scatter_input_coords.bin'' \<mapsto> [0, 0, 0, 0, 5, 0, 0, 0, 5, 0, 0, 0, 0, 0, 0, 0]]
     = (Inr 0, [CoordsLoaded 1, Md5Identical])"
proof -
  let ?fs = "[''out.bin'' \<mapsto> [1, 2, 3 :: byte], ''ref.bin'' \<mapsto> [1, 2, 3],
      ''./input/OpTest_scatter_input_coords.bin'' \<mapsto> [0, 0, 0, 0, 5, 0, 0, 0, 5, 0, 0, 0, 0, 0, 0, 0]]"
  let ?argv = "[''check.py'', ''out.bin'', ''ref.bin'']"
  have h1: "?fs (output_path ?argv) = Some [1, 2, 3]" by (simp add: output_path_def)
  have h2: "?fs (correct_path ?argv) = Some [1, 2, 3]" by (simp add: correct_path_def)
  have h3: "length [1, 2, 3 :: byte] = length [1, 2, 3 :: byte]" by simp
  have h4: "(\<lambda>bs :: byte list. bs) [1, 2, 3] = (\<lambda>bs. bs) [1, 2, 3]" by simp
  have cs: "snd (coords_stage ?fs) = [CoordsLoaded 1]"
    by (simp add: coords_stage_def DEBUG_MODE_def coords_path_def load_coords_file_def
        reshape_rows4_def)
  from identical_digests_pass_before_loading
         [of ?fs ?argv "[1, 2, 3]" "[1, 2, 3]" "\<lambda>bs. bs" isclose_zero "()"] h1 h2 h3 h4
  have "main (\<lambda>bs. bs) isclose_zero () ?argv ?fs = (Inr 0, snd (coords_stage ?fs) @ [Md5Identical])"
    by blast
  then show ?thesis
    unfolding cs by simp
qed

end
